theory Spec2Isabelle
  imports Complex_Main "HOL-Library.Sublist"
begin

section \<open>Values thrown by the unit of work\<close>

text \<open>
  The wrapper in \<^verbatim>\<open>lib/prisma.ts\<close> catches a value of type \<^verbatim>\<open>unknown\<close> and inspects it
  with \<^verbatim>\<open>instanceof\<close> against the three Prisma error classes, and otherwise reads its
  \<^verbatim>\<open>message\<close> property. The classes themselves come from the generated Prisma client;
  only the fields the source reads are kept:
  \<^item> \<^verbatim>\<open>PrismaClientInitializationError\<close>: the optional \<^verbatim>\<open>errorCode\<close> and the message;
  \<^item> \<^verbatim>\<open>PrismaClientKnownRequestError\<close>: the \<^verbatim>\<open>code\<close> and the message;
  \<^item> \<^verbatim>\<open>PrismaClientUnknownRequestError\<close>: the message;
  \<^item> any other value (also \<^verbatim>\<open>null\<close> and \<^verbatim>\<open>undefined\<close>): what \<^verbatim>\<open>e?.message\<close> evaluates to.
  A message of a Prisma error is a string or nullish (\<open>None\<close>), which is what the
  source's \<^verbatim>\<open>??\<close> and \<^verbatim>\<open>?.\<close> guard against. Strings are byte lists here; the source's
  patterns are ASCII, and a byte above 127 never equals an ASCII byte, as a code unit
  above 127 never matches an ASCII character of an \<^verbatim>\<open>/i\<close> pattern without the \<^verbatim>\<open>u\<close> flag.
\<close>

datatype js_value =
    Undefined
  | Null
  | Str string
  | NonString \<comment> \<open>any value whose \<^verbatim>\<open>typeof\<close> is not \<^verbatim>\<open>'string'\<close> and that is not nullish\<close>

datatype thrown =
    PrismaClientInitializationError "string option" "string option"
  | PrismaClientKnownRequestError string "string option"
  | PrismaClientUnknownRequestError "string option"
  | OtherValue js_value

text \<open>The operator \<^verbatim>\<open>a ?? b\<close> on an optional string.\<close>

fun nullish :: "string option \<Rightarrow> string \<Rightarrow> string" where
  "nullish None d = d"
| "nullish (Some s) d = s"

section \<open>Configuration\<close>

definition RETRYABLE_CODES :: "string list" where
  "RETRYABLE_CODES = [''P1001'', ''P1002'', ''P1008'', ''P1017'', ''P2024'']"

definition RETRY_DELAYS_MS :: "nat list" where
  "RETRY_DELAYS_MS = [1000, 2000, 3000]"

text \<open>
  Every pattern of the source is a case-insensitive regular expression made of literal
  characters and, once, of an alternation of two literals: a pattern is the list of its
  alternatives.
\<close>

datatype regex = IgnoreCase "string list"

definition RETRYABLE_MESSAGE_PATTERNS :: "regex list" where
  "RETRYABLE_MESSAGE_PATTERNS =
    [IgnoreCase [''Can't reach database server''],
     IgnoreCase [''ECONNREFUSED''],
     IgnoreCase [''ETIMEDOUT''],
     IgnoreCase [''ECONNRESET''],
     IgnoreCase [''EAI_AGAIN'', ''ENOTFOUND''],
     IgnoreCase [''server closed the connection''],
     IgnoreCase [''Connection terminated''],
     IgnoreCase [''connection terminated unexpectedly'']]"

section \<open>Matching a pattern\<close>

text \<open>
  With the \<^verbatim>\<open>i\<close> flag two characters match when their canonical (upper case) forms are
  equal; only the ASCII letters have one that differs from the character.
\<close>

definition canonicalize :: "char \<Rightarrow> char" where
  "canonicalize c =
     (case map_of (zip ''abcdefghijklmnopqrstuvwxyz'' ''ABCDEFGHIJKLMNOPQRSTUVWXYZ'') c of
        None \<Rightarrow> c
      | Some u \<Rightarrow> u)"

text \<open>The literal \<open>p\<close> matches at the start of the input.\<close>

fun match_here :: "string \<Rightarrow> string \<Rightarrow> bool" where
  "match_here [] s = True"
| "match_here (c # p) [] = False"
| "match_here (c # p) (d # s) = (canonicalize c = canonicalize d \<and> match_here p s)"

text \<open>\<^verbatim>\<open>RegExp.prototype.test\<close> tries every start position, from the left.\<close>

fun match_anywhere :: "string \<Rightarrow> string \<Rightarrow> bool" where
  "match_anywhere p [] = match_here p []"
| "match_anywhere p (d # s) = (match_here p (d # s) \<or> match_anywhere p s)"

fun test :: "regex \<Rightarrow> string \<Rightarrow> bool" where
  "test (IgnoreCase alts) s = list_ex (\<lambda>p. match_anywhere p s) alts"

section \<open>The failure classifier\<close>

text \<open>The enhanced variant: \<^verbatim>\<open>isRetryable\<close> of the multi-attempt wrapper.\<close>

fun isRetryable :: "thrown \<Rightarrow> bool" where
  "isRetryable (PrismaClientInitializationError errorCode message) = True"
| "isRetryable (PrismaClientKnownRequestError code message) = (code \<in> set RETRYABLE_CODES)"
| "isRetryable (PrismaClientUnknownRequestError message) =
     (let msg = nullish message '''' in list_ex (\<lambda>pattern. test pattern msg) RETRYABLE_MESSAGE_PATTERNS)"
| "isRetryable (OtherValue Undefined) =
     list_ex (\<lambda>pattern. test pattern '''') RETRYABLE_MESSAGE_PATTERNS"
| "isRetryable (OtherValue Null) =
     list_ex (\<lambda>pattern. test pattern '''') RETRYABLE_MESSAGE_PATTERNS"
| "isRetryable (OtherValue (Str errorMessage)) =
     list_ex (\<lambda>pattern. test pattern errorMessage) RETRYABLE_MESSAGE_PATTERNS"
| "isRetryable (OtherValue NonString) = False"

text \<open>The one-shot variant: \<^verbatim>\<open>isRetryable\<close> of the single-retry wrapper.\<close>

fun isRetryable_one_shot :: "thrown \<Rightarrow> bool" where
  "isRetryable_one_shot (PrismaClientKnownRequestError code message) =
     (code \<in> set RETRYABLE_CODES)"
| "isRetryable_one_shot (PrismaClientInitializationError errorCode message) =
     (nullish errorCode '''' \<in> set RETRYABLE_CODES)"
| "isRetryable_one_shot e = False"

section \<open>What the specification says about messages\<close>

text \<open>
  The specification's Message-Pattern Set, as the phrases it lists, and its notion of a
  message matching the set case-insensitively: some contiguous piece of the message
  is a phrase of the set, letter for letter, where two characters are the same letter
  when they are equal or are the upper and the lower case form of one ASCII letter
  (an upper case letter has a code from 65 to 90, its lower case form the code 32
  above). These definitions follow the specification and the ASCII table; they use
  nothing of the classifier above, which is compared with them.
\<close>

definition upper_case_letter :: "char \<Rightarrow> bool" where
  "upper_case_letter c = (65 \<le> (of_char c :: nat) \<and> (of_char c :: nat) \<le> 90)"

definition same_letter :: "char \<Rightarrow> char \<Rightarrow> bool" where
  "same_letter c d =
     (c = d
      \<or> (upper_case_letter c \<and> (of_char d :: nat) = of_char c + 32)
      \<or> (upper_case_letter d \<and> (of_char c :: nat) = of_char d + 32))"

definition transient_phrases :: "string list" where
  "transient_phrases =
    [''Can't reach database server'', ''ECONNREFUSED'', ''ETIMEDOUT'', ''ECONNRESET'',
     ''EAI_AGAIN'', ''ENOTFOUND'', ''server closed the connection'',
     ''Connection terminated'', ''connection terminated unexpectedly'']"

definition mentions_transient_phrase :: "string \<Rightarrow> bool" where
  "mentions_transient_phrase msg =
     (\<exists>p \<in> set transient_phrases.
        \<exists>before piece after. msg = before @ piece @ after \<and> list_all2 same_letter p piece)"

section \<open>The jittered delay\<close>

text \<open>
  \<^verbatim>\<open>jitter(ms)\<close> is \<^verbatim>\<open>ms + Math.floor(Math.random() * 250)\<close>. The source's numbers are
  IEEE 754 double precision values, so the product is rounded to the nearest double
  (ties to even) before the floor is taken. Doubles are rationals here. For a
  non-negative \<open>y\<close> below 512, \<open>binade 1030 256 y\<close> is the largest power of two that
  is at most \<open>y\<close>, and no less than the least normal number, 256 halved 1030 times; the doubles near
  \<open>y\<close> are the multiples of 52 further halvings of it (below the least normal number
  the spacing stays that of the lowest binade).
\<close>

fun binade :: "nat \<Rightarrow> rat \<Rightarrow> rat \<Rightarrow> rat" where
  "binade 0 p y = p"
| "binade (Suc n) p y = (if p \<le> y then p else binade n (p / 2) y)"

text \<open>The distance between neighbouring doubles around \<open>y\<close>.\<close>

definition ulp :: "rat \<Rightarrow> rat" where
  "ulp y = binade 1030 256 y / 2 ^ 52"

text \<open>Rounding to the nearest integer, a tie to the even one.\<close>

definition round_half_even :: "rat \<Rightarrow> int" where
  "round_half_even q =
     (let f = \<lfloor>q\<rfloor>; d = q - of_int f
      in if d < 1 / 2 then f else if 1 / 2 < d then f + 1 else if even f then f else f + 1)"

text \<open>The double nearest to a rational \<open>y\<close> with \<open>0 \<le> y < 512\<close>.\<close>

definition round_to_double :: "rat \<Rightarrow> rat" where
  "round_to_double y = of_int (round_half_even (y / ulp y)) * ulp y"

text \<open>A rational in that range is a double when rounding leaves it as it is.\<close>

definition is_double :: "rat \<Rightarrow> bool" where
  "is_double x = (round_to_double x = x)"

text \<open>
  The second argument is the value \<^verbatim>\<open>Math.random()\<close> returns: a double that is at least 0
  and less than 1. \<^verbatim>\<open>Math.floor\<close> of the rounded product is a small integer, and the
  sum of two integers below \<open>2 ^ 53\<close> is exact, so the addition is the one of \<open>nat\<close>.
\<close>

definition jitter :: "nat \<Rightarrow> rat \<Rightarrow> nat" where
  "jitter ms r = ms + nat \<lfloor>round_to_double (r * 250)\<rfloor>"

section \<open>The retry scheduler\<close>

text \<open>
  \<^verbatim>\<open>getErrorIdentifier\<close>, with the source's order of the \<^verbatim>\<open>instanceof\<close> tests.
\<close>

fun getErrorIdentifier :: "thrown \<Rightarrow> string" where
  "getErrorIdentifier (PrismaClientKnownRequestError code message) = code"
| "getErrorIdentifier (PrismaClientUnknownRequestError message) = ''PRISMA_UNKNOWN_REQUEST_ERROR''"
| "getErrorIdentifier (PrismaClientInitializationError errorCode message) =
     nullish errorCode ''PRISMA_CLIENT_INITIALIZATION_ERROR''"
| "getErrorIdentifier (OtherValue v) = ''UNKNOWN_ERROR_PRISMA''"

text \<open>
  The second argument of \<^verbatim>\<open>console.warn\<close> is \<^verbatim>\<open>(err as Error).message?.slice(0, 100) + '...'\<close>,
  with a one-character ellipsis (three bytes in UTF-8) where the three dots stand.
  \<open>message_of\<close> reads the property. On a nullish message the optional call yields
  \<^verbatim>\<open>undefined\<close>, which the concatenation prints; on a string it keeps the first 100
  characters. The source counts UTF-16 code units and this model bytes: the two agree
  on ASCII text, and on a message with other characters the logged text differs (no
  property below depends on it); a value that is not a string has in general no \<^verbatim>\<open>slice\<close> method and the call raises a \<^verbatim>\<open>TypeError\<close> inside the
  \<^verbatim>\<open>catch\<close> block. The warning is built for retryable errors only, and a retryable
  error has a string or nullish message (\<open>retryable_message_truncates\<close> below).
\<close>

fun message_of :: "thrown \<Rightarrow> js_value" where
  "message_of (PrismaClientInitializationError errorCode None) = Undefined"
| "message_of (PrismaClientInitializationError errorCode (Some s)) = Str s"
| "message_of (PrismaClientKnownRequestError code None) = Undefined"
| "message_of (PrismaClientKnownRequestError code (Some s)) = Str s"
| "message_of (PrismaClientUnknownRequestError None) = Undefined"
| "message_of (PrismaClientUnknownRequestError (Some s)) = Str s"
| "message_of (OtherValue v) = v"

definition ellipsis :: string where
  "ellipsis = [CHR 0xE2, CHR 0x80, CHR 0xA6]"

definition slice_TypeError :: thrown where
  "slice_TypeError = OtherValue (Str ''err.message?.slice is not a function'')"

fun truncated_message :: "js_value \<Rightarrow> thrown + string" where
  "truncated_message Undefined = Inr (''undefined'' @ ellipsis)"
| "truncated_message Null = Inr (''undefined'' @ ellipsis)"
| "truncated_message (Str s) = Inr (take 100 s @ ellipsis)"
| "truncated_message NonString = Inl slice_TypeError"

text \<open>
  One call of \<^verbatim>\<open>console.warn\<close>: the values the source interpolates into its text
  (\<open>w_attempt\<close> is \<^verbatim>\<open>attempt + 1\<close>, \<open>w_total\<close> is \<^verbatim>\<open>RETRY_DELAYS_MS.length + 1\<close>,
  \<open>w_delayMs\<close> the base delay it prints in seconds) and the truncated message.
\<close>

record warning =
  w_model :: string
  w_operation :: string
  w_errorId :: string
  w_attempt :: nat
  w_total :: nat
  w_delayMs :: nat
  w_message :: string

text \<open>
  What one call of the wrapper does to the outside: how many times it has invoked
  \<^verbatim>\<open>query(args)\<close>, the warnings it has logged and the durations, in milliseconds, of the
  timers it has awaited, both in order.
\<close>

record effects =
  calls :: nat
  warnings :: "warning list"
  sleeps :: "nat list"

text \<open>
  The wrapper returns the result of the query, or throws. A throw is recorded with the
  statement it comes from: the \<^verbatim>\<open>throw err\<close> for an error that is not retryable, the
  \<^verbatim>\<open>throw err\<close> once the schedule is used up, an exception raised while the warning is
  built, and the \<^verbatim>\<open>throw lastError\<close> after the loop.
\<close>

datatype throw_site = NotRetryable | Exhausted | InWarning | AfterLoop

datatype 'r completion = Returned 'r | Thrown throw_site thrown

text \<open>
  The unit of work is opaque: \<open>query i\<close> is how its invocation number \<open>i\<close> (from 0)
  within this call settles, \<open>Inr\<close> a result or \<open>Inl\<close> the value it rejects with; any
  behaviour of the operation is such a sequence. \<open>random a\<close> is what \<^verbatim>\<open>Math.random()\<close>
  returns in the retry that follows attempt \<open>a\<close>. \<open>attempts\<close> is the \<^verbatim>\<open>for\<close> loop from the
  given value of \<^verbatim>\<open>attempt\<close> on, its \<^verbatim>\<open>else\<close> branch the statement after the loop. The
  index \<^verbatim>\<open>RETRY_DELAYS_MS[attempt]\<close> is read only where \<^verbatim>\<open>attempt\<close> is below the length.
\<close>

function attempts ::
  "string \<Rightarrow> string \<Rightarrow> (nat \<Rightarrow> thrown + 'r) \<Rightarrow> (nat \<Rightarrow> rat) \<Rightarrow>
     nat \<Rightarrow> thrown \<Rightarrow> effects \<Rightarrow> 'r completion \<times> effects" where
  "attempts model operation query random attempt lastError fx =
     (if attempt \<le> length RETRY_DELAYS_MS then
        (case query (calls fx) of
           Inr result \<Rightarrow> (Returned result, fx\<lparr>calls := calls fx + 1\<rparr>)
         | Inl err \<Rightarrow>
             if \<not> isRetryable err then (Thrown NotRetryable err, fx\<lparr>calls := calls fx + 1\<rparr>)
             else if attempt \<ge> length RETRY_DELAYS_MS
               then (Thrown Exhausted err, fx\<lparr>calls := calls fx + 1\<rparr>)
             else
               (let delayMs = RETRY_DELAYS_MS ! attempt;
                    errorId = getErrorIdentifier err
                in case truncated_message (message_of err) of
                     Inl typeError \<Rightarrow> (Thrown InWarning typeError, fx\<lparr>calls := calls fx + 1\<rparr>)
                   | Inr snippet \<Rightarrow>
                       attempts model operation query random (attempt + 1) err
                         (fx\<lparr>calls := calls fx + 1,
                             warnings := warnings fx @
                               [\<lparr>w_model = model, w_operation = operation, w_errorId = errorId,
                                 w_attempt = attempt + 1, w_total = length RETRY_DELAYS_MS + 1,
                                 w_delayMs = delayMs, w_message = snippet\<rparr>],
                             sleeps := sleeps fx @ [jitter delayMs (random attempt)]\<rparr>)))
      else (Thrown AfterLoop lastError, fx))"
  by pat_completeness auto
termination
  by (relation "measure (\<lambda>(model, operation, query, random, attempt, lastError, fx).
        Suc (length RETRY_DELAYS_MS) - attempt)") auto

text \<open>\<^verbatim>\<open>$allOperations\<close>: the loop from attempt 0, \<^verbatim>\<open>lastError\<close> not yet assigned.\<close>

definition allOperations ::
  "string \<Rightarrow> string \<Rightarrow> (nat \<Rightarrow> thrown + 'r) \<Rightarrow> (nat \<Rightarrow> rat) \<Rightarrow> 'r completion \<times> effects" where
  "allOperations model operation query random =
     attempts model operation query random 0 (OtherValue Undefined)
       \<lparr>calls = 0, warnings = [], sleeps = []\<rparr>"

declare attempts.simps [simp del]

text \<open>The statement a completion was thrown from, if it is a throw.\<close>

fun site :: "'r completion \<Rightarrow> throw_site option" where
  "site (Returned result) = None"
| "site (Thrown s err) = Some s"

section \<open>Properties of the classifier\<close>

text \<open>
  What the classifier's character comparison is: \<open>canonicalize\<close> maps the lower case
  ASCII letters to their upper case forms and leaves every other character alone (all
  256 characters are checked), so two characters have the same canonical form exactly
  when they are the same letter in the specification's sense.
\<close>

lemma canonicalize_pointwise:
  "\<forall>c. canonicalize c =
     (if 97 \<le> (of_char c :: nat) \<and> (of_char c :: nat) \<le> 122 then char_of (of_char c - 32 :: nat) else c)"
  by code_simp

lemma of_char_canonicalize:
  "(of_char (canonicalize c) :: nat) =
     (if 97 \<le> (of_char c :: nat) \<and> (of_char c :: nat) \<le> 122 then of_char c - 32 else of_char c)"
proof -
  have lt: "(of_char c :: nat) < 256" by simp
  have "canonicalize c =
     (if 97 \<le> (of_char c :: nat) \<and> (of_char c :: nat) \<le> 122 then char_of (of_char c - 32 :: nat) else c)"
    using canonicalize_pointwise by blast
  then show ?thesis using lt by (simp del: nat_of_char_less_256)
qed

lemma same_letter_canonicalize: "same_letter c d = (canonicalize c = canonicalize d)"
proof -
  define n :: nat where "n = of_char c"
  define m :: nat where "m = of_char d"
  have cd: "(c = d) = (n = m)" by (simp add: n_def m_def)
  have "(canonicalize c = canonicalize d) =
          ((of_char (canonicalize c) :: nat) = of_char (canonicalize d))"
    by simp
  also have "\<dots> = ((if 97 \<le> n \<and> n \<le> 122 then n - 32 else n) =
                    (if 97 \<le> m \<and> m \<le> 122 then m - 32 else m))"
    by (simp only: of_char_canonicalize n_def m_def)
  also have "\<dots> = (n = m \<or> ((65 \<le> n \<and> n \<le> 90) \<and> m = n + 32)
                          \<or> ((65 \<le> m \<and> m \<le> 90) \<and> n = m + 32))"
    by auto
  finally show ?thesis
    by (simp only: same_letter_def upper_case_letter_def cd n_def [symmetric] m_def [symmetric])
qed

lemma list_all2_same_letter:
  "list_all2 same_letter p w = (map canonicalize p = map canonicalize w)"
proof -
  have "list_all2 same_letter p w = list_all2 (\<lambda>c d. canonicalize c = canonicalize d) p w"
    by (simp add: same_letter_canonicalize [abs_def])
  also have "\<dots> = list_all2 (=) (map canonicalize p) (map canonicalize w)"
    by (simp add: list.rel_map)
  finally show ?thesis by (simp add: list.rel_eq)
qed

lemma sublist_ignoring_case:
  "sublist (map canonicalize p) (map canonicalize msg) =
     (\<exists>before piece after. msg = before @ piece @ after \<and> list_all2 same_letter p piece)"
proof
  assume "sublist (map canonicalize p) (map canonicalize msg)"
  then obtain ps ss where "map canonicalize msg = ps @ map canonicalize p @ ss"
    by (auto simp add: sublist_def)
  then obtain before rest where b: "msg = before @ rest" "map canonicalize p @ ss = map canonicalize rest"
    unfolding map_eq_append_conv by blast
  from b(2) obtain piece after where "rest = piece @ after" "map canonicalize p = map canonicalize piece"
    unfolding append_eq_map_conv by blast
  with b(1) have "msg = before @ piece @ after \<and> list_all2 same_letter p piece"
    by (simp add: list_all2_same_letter)
  then show "\<exists>before piece after. msg = before @ piece @ after \<and> list_all2 same_letter p piece"
    by blast
next
  assume "\<exists>before piece after. msg = before @ piece @ after \<and> list_all2 same_letter p piece"
  then obtain before piece after where
    "msg = before @ piece @ after" "map canonicalize p = map canonicalize piece"
    by (auto simp add: list_all2_same_letter)
  then have "map canonicalize msg =
      map canonicalize before @ map canonicalize p @ map canonicalize after"
    by simp
  then show "sublist (map canonicalize p) (map canonicalize msg)"
    unfolding sublist_def by blast
qed

lemma match_here_prefix:
  "match_here p s = prefix (map canonicalize p) (map canonicalize s)"
  by (induction p s rule: match_here.induct) simp_all

lemma match_anywhere_sublist:
  "match_anywhere p s = sublist (map canonicalize p) (map canonicalize s)"
proof (induction s)
  case Nil
  show ?case by (cases p) simp_all
next
  case (Cons d s)
  then show ?case
    by (simp add: match_here_prefix sublist_Cons_right)
qed

lemma some_pattern_matches:
  "list_ex (\<lambda>pattern. test pattern msg) RETRYABLE_MESSAGE_PATTERNS = mentions_transient_phrase msg"
  unfolding RETRYABLE_MESSAGE_PATTERNS_def mentions_transient_phrase_def transient_phrases_def
  by (simp add: match_anywhere_sublist sublist_ignoring_case)

lemma empty_message_matches_nothing: "\<not> mentions_transient_phrase []"
  by (simp add: mentions_transient_phrase_def transient_phrases_def)

text \<open>
  C1, as the code has it. A \<^verbatim>\<open>PrismaClientInitializationError\<close> is always retryable for
  the enhanced classifier, whatever its \<^verbatim>\<open>errorCode\<close> and message. The one-shot classifier
  retries it exactly when its \<^verbatim>\<open>errorCode\<close> (the empty string when absent) is in the
  Retryable-Code Set.
\<close>

theorem initialization_error_retryable:
  "isRetryable (PrismaClientInitializationError errorCode message)
   \<and> isRetryable_one_shot (PrismaClientInitializationError errorCode message) =
       (nullish errorCode [] \<in> {''P1001'', ''P1002'', ''P1008'', ''P1017'', ''P2024''})"
  by (simp add: RETRYABLE_CODES_def)

text \<open>
  An initialization error without an \<^verbatim>\<open>errorCode\<close> is not retryable for the one-shot
  classifier, so the two variants do not both accept every initialization error.
\<close>

theorem initialization_error_one_shot_refused:
  "\<not> (isRetryable (PrismaClientInitializationError None (Some ''Can't reach database server''))
      \<and> isRetryable_one_shot
            (PrismaClientInitializationError None (Some ''Can't reach database server'')))"
  by (simp add: RETRYABLE_CODES_def)

text \<open>
  C2. A \<^verbatim>\<open>PrismaClientKnownRequestError\<close> is retryable exactly when its code is one of
  P1001, P1002, P1008, P1017, P2024, whatever its message; this holds for the enhanced
  classifier and for the one-shot one.
\<close>

theorem known_request_retryable_iff_code:
  "isRetryable (PrismaClientKnownRequestError code message) =
     (code \<in> {''P1001'', ''P1002'', ''P1008'', ''P1017'', ''P2024''})
   \<and> isRetryable_one_shot (PrismaClientKnownRequestError code message) =
     (code \<in> {''P1001'', ''P1002'', ''P1008'', ''P1017'', ''P2024''})"
  by (simp add: RETRYABLE_CODES_def)

lemma lower_case_message_example:
  "isRetryable (OtherValue (Str ''read econnreset at TCP.onStreamRead''))"
  by code_simp

lemma upper_case_message_example:
  "isRetryable (PrismaClientUnknownRequestError (Some ''CAN'T REACH DATABASE SERVER at db:5432''))"
  by code_simp

lemma non_matching_message_example:
  "\<not> isRetryable (PrismaClientUnknownRequestError (Some ''Unique constraint failed''))"
  by code_simp

text \<open>
  C3. An unknown-request error, and a value that is none of the three Prisma error
  classes, is retryable exactly when its message mentions a phrase of the
  Message-Pattern Set, letter case ignored. A message that is absent counts as the empty
  string and a message that is not a string as no text at all: neither mentions a
  phrase. So a message that mentions a phrase makes the error retryable although it
  carries no code. In particular a lower case and an upper case spelling of a phrase
  are both accepted, and a message without any phrase is refused.
\<close>

theorem untagged_retryable_iff_message_matches:
  "isRetryable (PrismaClientUnknownRequestError (Some msg)) = mentions_transient_phrase msg
   \<and> isRetryable (OtherValue (Str msg)) = mentions_transient_phrase msg
   \<and> isRetryable (PrismaClientUnknownRequestError None) = mentions_transient_phrase []
   \<and> isRetryable (OtherValue Undefined) = mentions_transient_phrase []
   \<and> isRetryable (OtherValue Null) = mentions_transient_phrase []
   \<and> \<not> isRetryable (PrismaClientUnknownRequestError None)
   \<and> \<not> isRetryable (OtherValue Undefined)
   \<and> \<not> isRetryable (OtherValue Null)
   \<and> \<not> isRetryable (OtherValue NonString)
   \<and> isRetryable (OtherValue (Str ''read econnreset at TCP.onStreamRead''))
   \<and> isRetryable (PrismaClientUnknownRequestError (Some ''CAN'T REACH DATABASE SERVER at db:5432''))
   \<and> \<not> isRetryable (PrismaClientUnknownRequestError (Some ''Unique constraint failed''))"
proof -
  have general:
    "isRetryable (PrismaClientUnknownRequestError (Some msg)) = mentions_transient_phrase msg
     \<and> isRetryable (OtherValue (Str msg)) = mentions_transient_phrase msg
     \<and> isRetryable (PrismaClientUnknownRequestError None) = mentions_transient_phrase []
     \<and> isRetryable (OtherValue Undefined) = mentions_transient_phrase []
     \<and> isRetryable (OtherValue Null) = mentions_transient_phrase []
     \<and> \<not> isRetryable (PrismaClientUnknownRequestError None)
     \<and> \<not> isRetryable (OtherValue Undefined)
     \<and> \<not> isRetryable (OtherValue Null)
     \<and> \<not> isRetryable (OtherValue NonString)"
    by (simp add: some_pattern_matches empty_message_matches_nothing)
  from general lower_case_message_example upper_case_message_example
    non_matching_message_example
  show ?thesis by (intro conjI) (elim conjE, assumption)+
qed

text \<open>
  C10. Whatever the one-shot classifier retries, the enhanced classifier retries too,
  and the two differ: an initialization error without an \<^verbatim>\<open>errorCode\<close> is retried by
  the enhanced classifier only.
\<close>

theorem one_shot_more_restrictive:
  "(isRetryable_one_shot e \<longrightarrow> isRetryable e)
   \<and> (\<exists>e'. isRetryable e' \<and> \<not> isRetryable_one_shot e')"
proof
  show "isRetryable_one_shot e \<longrightarrow> isRetryable e"
    by (cases e) simp_all
  have "isRetryable (PrismaClientInitializationError None None)
        \<and> \<not> isRetryable_one_shot (PrismaClientInitializationError None None)"
    by (simp add: RETRYABLE_CODES_def)
  then show "\<exists>e'. isRetryable e' \<and> \<not> isRetryable_one_shot e'"
    by blast
qed

theorem one_shot_more_restrictive_witness:
  "isRetryable_one_shot (PrismaClientKnownRequestError ''P1001'' None)
   \<and> isRetryable (PrismaClientKnownRequestError ''P1001'' None)"
  using one_shot_more_restrictive [of "PrismaClientKnownRequestError ''P1001'' None"]
  by (simp add: RETRYABLE_CODES_def)

section \<open>Properties of the jittered delay\<close>

lemma binade_step:
  "0 < n \<Longrightarrow> binade n p y = (if p \<le> y then p else binade (n - 1) (p / 2) y)"
  by (cases n) simp_all

lemma binade_power_of_two: "\<exists>k. binade n p y = p / 2 ^ k"
proof (induction n arbitrary: p)
  case 0
  have "binade 0 p y = p / 2 ^ 0" by simp
  then show ?case by blast
next
  case (Suc n)
  show ?case
  proof (cases "p \<le> y")
    case True
    then have "binade (Suc n) p y = p / 2 ^ 0" by simp
    then show ?thesis by blast
  next
    case False
    obtain k where "binade n (p / 2) y = p / 2 / 2 ^ k" using Suc.IH by blast
    with False have "binade (Suc n) p y = p / 2 ^ Suc k" by simp
    then show ?thesis by blast
  qed
qed

lemma ulp_unit_fraction: "\<exists>j. ulp y * 2 ^ j = 1"
proof -
  obtain k where k: "binade 1030 256 y = 256 / 2 ^ k"
    using binade_power_of_two by blast
  have "ulp y * 2 ^ (k + 44) = 1"
    by (simp add: ulp_def k power_add)
  then show ?thesis by blast
qed

lemma ulp_pos: "0 < ulp y"
proof -
  obtain k where k: "binade 1030 256 y = 256 / 2 ^ k"
    using binade_power_of_two by blast
  show ?thesis by (simp add: ulp_def k)
qed

lemma round_half_even_le: "q \<le> of_int N \<Longrightarrow> round_half_even q \<le> N"
proof -
  assume q: "q \<le> of_int N"
  have f: "\<lfloor>q\<rfloor> \<le> N" using q by (simp add: floor_le_iff) 
  show ?thesis
  proof (cases "\<lfloor>q\<rfloor> = N")
    case True
    then have "q - of_int \<lfloor>q\<rfloor> \<le> 0" using q by simp
    then show ?thesis using True by (simp add: round_half_even_def Let_def)
  next
    case False
    with f have "\<lfloor>q\<rfloor> + 1 \<le> N" by simp
    then show ?thesis by (simp add: round_half_even_def Let_def)
  qed
qed

lemma round_half_even_below_half:
  "q < of_int N + 1 / 2 \<Longrightarrow> round_half_even q \<le> N"
proof -
  assume q: "q < of_int N + 1 / 2"
  then have "q < of_int (N + 1)" by simp
  then have "\<lfloor>q\<rfloor> < N + 1" by (simp only: floor_less_iff)
  then have f: "\<lfloor>q\<rfloor> \<le> N" by simp
  show ?thesis
  proof (cases "\<lfloor>q\<rfloor> = N")
    case True
    then have "q - of_int \<lfloor>q\<rfloor> < 1 / 2" using q by simp
    then show ?thesis using True by (simp add: round_half_even_def Let_def)
  next
    case False
    with f have "\<lfloor>q\<rfloor> + 1 \<le> N" by simp
    then show ?thesis by (simp add: round_half_even_def Let_def)
  qed
qed

lemma round_half_even_nonneg: "0 \<le> q \<Longrightarrow> 0 \<le> round_half_even q"
proof -
  assume "0 \<le> q"
  then have "0 \<le> \<lfloor>q\<rfloor>" by simp
  then show ?thesis by (simp add: round_half_even_def Let_def)
qed

lemma round_to_double_nonneg: "0 \<le> y \<Longrightarrow> 0 \<le> round_to_double y"
proof -
  assume "0 \<le> y"
  then have "0 \<le> y / ulp y" using ulp_pos [of y] by simp
  then have "0 \<le> round_half_even (y / ulp y)" by (rule round_half_even_nonneg)
  then show ?thesis using ulp_pos [of y] by (simp add: round_to_double_def)
qed

lemma round_to_double_le_int:
  assumes "y \<le> of_int M"
  shows "round_to_double y \<le> of_int M"
proof -
  obtain j where j: "ulp y * 2 ^ j = 1" using ulp_unit_fraction by blast
  have pos: "0 < ulp y" by (rule ulp_pos)
  have inv: "1 / ulp y = 2 ^ j" using j pos by (simp add: field_simps)
  have "y / ulp y \<le> of_int M / ulp y" using assms pos by (simp add: divide_right_mono)
  also have "of_int M / ulp y = of_int M * (1 / ulp y)" by simp
  also have "\<dots> = of_int (M * 2 ^ j)" by (simp only: inv) simp
  finally have "round_half_even (y / ulp y) \<le> M * 2 ^ j" by (rule round_half_even_le)
  then have "(of_int (round_half_even (y / ulp y)) :: rat) \<le> of_int (M * 2 ^ j)"
    by (simp only: of_int_le_iff)
  then have "of_int (round_half_even (y / ulp y)) * ulp y \<le> of_int (M * 2 ^ j) * ulp y"
    using pos by (simp only: mult_le_cancel_right_pos)
  also have "of_int (M * 2 ^ j) * ulp y = of_int M * (ulp y * 2 ^ j)" by simp
  finally show ?thesis by (simp add: round_to_double_def j)
qed

lemma ulp_top_binade: "128 \<le> y \<Longrightarrow> y < 256 \<Longrightarrow> ulp y = 1 / 2 ^ 45"
  by (simp add: ulp_def binade_step)

lemma round_to_double_top_binade:
  assumes "128 \<le> y" and "y \<le> 250 - 250 / 2 ^ 53"
  shows "round_to_double y \<le> 250 - 1 / 2 ^ 45"
proof -
  have u: "ulp y = 1 / 2 ^ 45" using assms by (intro ulp_top_binade) simp_all
  have "y / ulp y = y * 2 ^ 45" by (simp add: u)
  also have "\<dots> \<le> (250 - 250 / 2 ^ 53) * 2 ^ 45" using assms(2) by simp
  also have "\<dots> < of_int (250 * 2 ^ 45 - 1) + 1 / 2" by simp
  finally have "round_half_even (y / ulp y) \<le> 250 * 2 ^ 45 - 1"
    by (rule round_half_even_below_half)
  then have "(of_int (round_half_even (y / ulp y)) :: rat) \<le> of_int (250 * 2 ^ 45 - 1)"
    by (simp only: of_int_le_iff)
  then have "of_int (round_half_even (y / ulp y)) * ulp y \<le> of_int (250 * 2 ^ 45 - 1) * ulp y"
    using ulp_pos [of y] by (simp only: mult_le_cancel_right_pos)
  also have "of_int (250 * 2 ^ 45 - 1) * ulp y = 250 - 1 / 2 ^ 45" by (simp add: u)
  finally show ?thesis by (simp add: round_to_double_def)
qed

lemma ulp_below_one: "1 / 2 \<le> x \<Longrightarrow> x < 1 \<Longrightarrow> ulp x = 1 / 2 ^ 53"
  by (simp add: ulp_def binade_step)

lemma double_below_one:
  assumes "is_double x" and "x < 1"
  shows "x \<le> 1 - 1 / 2 ^ 53"
proof (cases "1 / 2 \<le> x")
  case False
  then show ?thesis by simp
next
  case True
  then have u: "ulp x = 1 / 2 ^ 53" using assms(2) by (rule ulp_below_one)
  define k where "k = round_half_even (x / ulp x)"
  have x: "x = of_int k / 2 ^ 53"
    using assms(1) by (simp add: is_double_def round_to_double_def k_def u)
  with assms(2) have "(of_int k :: rat) < of_int (2 ^ 53)" by simp
  then have "k < 2 ^ 53" by (simp only: of_int_less_iff)
  then have "k \<le> 2 ^ 53 - 1" by simp
  then have "(of_int k :: rat) \<le> of_int (2 ^ 53 - 1)" by (simp only: of_int_le_iff)
  then show ?thesis by (simp add: x field_simps)
qed

lemma product_rounds_below_250:
  assumes "is_double r" and "0 \<le> r" and "r < 1"
  shows "0 \<le> round_to_double (r * 250) \<and> round_to_double (r * 250) < 250"
proof
  show "0 \<le> round_to_double (r * 250)"
    using assms(2) by (intro round_to_double_nonneg) simp
  have r: "r \<le> 1 - 1 / 2 ^ 53" using assms(1,3) by (rule double_below_one)
  show "round_to_double (r * 250) < 250"
  proof (cases "128 \<le> r * 250")
    case True
    have "r * 250 \<le> 250 - 250 / 2 ^ 53" using r by simp
    with True have "round_to_double (r * 250) \<le> 250 - 1 / 2 ^ 45"
      by (rule round_to_double_top_binade)
    then show ?thesis by simp
  next
    case False
    then have "r * 250 \<le> of_int 128" by simp
    then have "round_to_double (r * 250) \<le> of_int 128" by (rule round_to_double_le_int)
    then show ?thesis by simp
  qed
qed

lemma jitter_range:
  assumes "is_double r" and "0 \<le> r" and "r < 1"
  shows "ms \<le> jitter ms r \<and> jitter ms r < ms + 250"
proof -
  have "round_to_double (r * 250) < 250"
    using product_rounds_below_250 [OF assms] by simp
  then have "\<lfloor>round_to_double (r * 250)\<rfloor> < 250" by (simp add: floor_less_iff)
  then have "nat \<lfloor>round_to_double (r * 250)\<rfloor> < 250" by linarith
  then show ?thesis by (simp only: jitter_def) linarith
qed

section \<open>Properties of the retry scheduler\<close>

lemma retryable_message_truncates:
  assumes "isRetryable err"
  shows "\<exists>snippet. truncated_message (message_of err) = Inr snippet"
proof (cases err)
  case (PrismaClientInitializationError errorCode message)
  then show ?thesis by (cases message) simp_all
next
  case (PrismaClientKnownRequestError code message)
  then show ?thesis by (cases message) simp_all
next
  case (PrismaClientUnknownRequestError message)
  then show ?thesis by (cases message) simp_all
next
  case (OtherValue v)
  with assms show ?thesis by (cases v) simp_all
qed

lemma attempts_success:
  assumes "attempt \<le> length RETRY_DELAYS_MS" and "query (calls fx) = Inr result"
  shows "attempts model operation query random attempt lastError fx =
           (Returned result, fx\<lparr>calls := calls fx + 1\<rparr>)"
  using assms by (subst attempts.simps) simp

lemma attempts_not_retryable:
  assumes "attempt \<le> length RETRY_DELAYS_MS" and "query (calls fx) = Inl err"
    and "\<not> isRetryable err"
  shows "attempts model operation query random attempt lastError fx =
           (Thrown NotRetryable err, fx\<lparr>calls := calls fx + 1\<rparr>)"
  using assms by (subst attempts.simps) simp

lemma attempts_exhausted:
  assumes "query (calls fx) = Inl err" and "isRetryable err"
  shows "attempts model operation query random (length RETRY_DELAYS_MS) lastError fx =
           (Thrown Exhausted err, fx\<lparr>calls := calls fx + 1\<rparr>)"
  using assms by (subst attempts.simps) simp

lemma attempts_retry:
  assumes "attempt < length RETRY_DELAYS_MS" and "query (calls fx) = Inl err"
    and "isRetryable err"
  shows "\<exists>w. attempts model operation query random attempt lastError fx =
           attempts model operation query random (attempt + 1) err
             (fx\<lparr>calls := calls fx + 1, warnings := warnings fx @ [w],
                 sleeps := sleeps fx @ [jitter (RETRY_DELAYS_MS ! attempt) (random attempt)]\<rparr>)
           \<and> w_attempt w = attempt + 1 \<and> w_delayMs w = RETRY_DELAYS_MS ! attempt
           \<and> w_errorId w = getErrorIdentifier err"
proof -
  obtain snippet where "truncated_message (message_of err) = Inr snippet"
    using assms(3) retryable_message_truncates by blast
  with assms show ?thesis
    by (subst attempts.simps)
      (simp add: Let_def
         exI [of _ "\<lparr>w_model = model, w_operation = operation,
                      w_errorId = getErrorIdentifier err, w_attempt = attempt + 1,
                      w_total = length RETRY_DELAYS_MS + 1,
                      w_delayMs = RETRY_DELAYS_MS ! attempt, w_message = snippet\<rparr>"])
qed

lemma attempts_retries:
  assumes "attempt + n \<le> length RETRY_DELAYS_MS"
    and "\<forall>i<n. \<exists>err. query (calls fx + i) = Inl err \<and> isRetryable err"
  shows "\<exists>last ws.
           attempts model operation query random attempt lastError fx =
             attempts model operation query random (attempt + n) last
               (fx\<lparr>calls := calls fx + n, warnings := warnings fx @ ws,
                   sleeps := sleeps fx @
                     map (\<lambda>a. jitter (RETRY_DELAYS_MS ! a) (random a)) [attempt..<attempt + n]\<rparr>)
           \<and> map w_attempt ws = [attempt + 1..<attempt + n + 1]"
  using assms
proof (induction n arbitrary: attempt lastError fx)
  case 0
  have "attempts model operation query random attempt lastError fx =
          attempts model operation query random (attempt + 0) lastError
            (fx\<lparr>calls := calls fx + 0, warnings := warnings fx @ [],
                sleeps := sleeps fx @
                  map (\<lambda>a. jitter (RETRY_DELAYS_MS ! a) (random a)) [attempt..<attempt + 0]\<rparr>)
        \<and> map w_attempt [] = [attempt + 1..<attempt + 0 + 1]"
    by simp
  then show ?case by blast
next
  case (Suc n)
  from Suc.prems(2) obtain err where err: "query (calls fx) = Inl err" "isRetryable err"
    by force
  have lt: "attempt < length RETRY_DELAYS_MS" using Suc.prems(1) by simp
  obtain w where w:
    "attempts model operation query random attempt lastError fx =
       attempts model operation query random (attempt + 1) err
         (fx\<lparr>calls := calls fx + 1, warnings := warnings fx @ [w],
             sleeps := sleeps fx @ [jitter (RETRY_DELAYS_MS ! attempt) (random attempt)]\<rparr>)"
    "w_attempt w = attempt + 1"
    using attempts_retry [where query = query and fx = fx, OF lt err] by blast
  define fx1 where "fx1 = fx\<lparr>calls := calls fx + 1, warnings := warnings fx @ [w],
             sleeps := sleeps fx @ [jitter (RETRY_DELAYS_MS ! attempt) (random attempt)]\<rparr>"
  have c1: "calls fx1 = calls fx + 1" by (simp add: fx1_def)
  have p1: "(attempt + 1) + n \<le> length RETRY_DELAYS_MS" using Suc.prems(1) by simp
  have p2: "\<forall>i<n. \<exists>err. query (calls fx1 + i) = Inl err \<and> isRetryable err"
  proof (intro allI impI)
    fix i assume "i < n"
    then have "Suc i < Suc n" by simp
    with Suc.prems(2) have "\<exists>err. query (calls fx + Suc i) = Inl err \<and> isRetryable err"
      by blast
    then show "\<exists>err. query (calls fx1 + i) = Inl err \<and> isRetryable err"
      by (simp add: c1)
  qed
  obtain last ws where rest:
    "attempts model operation query random (attempt + 1) err fx1 =
       attempts model operation query random (attempt + 1 + n) last
         (fx1\<lparr>calls := calls fx1 + n, warnings := warnings fx1 @ ws,
              sleeps := sleeps fx1 @
                map (\<lambda>a. jitter (RETRY_DELAYS_MS ! a) (random a)) [attempt + 1..<attempt + 1 + n]\<rparr>)"
    "map w_attempt ws = [attempt + 1 + 1..<attempt + 1 + n + 1]"
    using Suc.IH [OF p1 p2] by blast
  have upt: "[attempt..<attempt + Suc n] = attempt # [attempt + 1..<attempt + 1 + n]"
    by (simp add: upt_conv_Cons)
  have upt2: "[attempt + 1..<attempt + Suc n + 1] = (attempt + 1) # [attempt + 1 + 1..<attempt + 1 + n + 1]"
    by (simp add: upt_conv_Cons)
  have "attempts model operation query random attempt lastError fx =
          attempts model operation query random (attempt + Suc n) last
            (fx\<lparr>calls := calls fx + Suc n, warnings := warnings fx @ (w # ws),
                sleeps := sleeps fx @
                  map (\<lambda>a. jitter (RETRY_DELAYS_MS ! a) (random a)) [attempt..<attempt + Suc n]\<rparr>)"
    unfolding w(1) fx1_def [symmetric] rest(1) upt
    by (simp add: fx1_def)
  moreover have "map w_attempt (w # ws) = [attempt + 1..<attempt + Suc n + 1]"
    unfolding upt2 using w(2) rest(2) by simp
  ultimately show ?case by blast
qed

lemma attempts_site:
  "attempt \<le> length RETRY_DELAYS_MS \<Longrightarrow>
     site (fst (attempts model operation query random attempt lastError fx))
       \<in> {None, Some NotRetryable, Some Exhausted}"
proof (induction model operation query random attempt lastError fx
       rule: attempts.induct)
  case (1 model operation query random attempt lastError fx)
  show ?case
  proof (cases "query (calls fx)")
    case (Inr result)
    with "1.prems" show ?thesis by (simp add: attempts_success)
  next
    case (Inl err)
    show ?thesis
    proof (cases "isRetryable err")
      case False
      with Inl "1.prems" show ?thesis by (simp add: attempts_not_retryable)
    next
      case True
      show ?thesis
      proof (cases "attempt = length RETRY_DELAYS_MS")
        case at_end: True
        with Inl True show ?thesis by (simp add: attempts_exhausted)
      next
        case False
        with "1.prems" have lt: "attempt < length RETRY_DELAYS_MS" by simp
        obtain snippet where snippet: "truncated_message (message_of err) = Inr snippet"
          using True retryable_message_truncates by blast
        have "site (fst (attempts model operation query random (attempt + 1) err
                (fx\<lparr>calls := calls fx + 1,
                    warnings := warnings fx @
                      [\<lparr>w_model = model, w_operation = operation,
                        w_errorId = getErrorIdentifier err,
                        w_attempt = attempt + 1, w_total = length RETRY_DELAYS_MS + 1,
                        w_delayMs = RETRY_DELAYS_MS ! attempt, w_message = snippet\<rparr>],
                    sleeps := sleeps fx @ [jitter (RETRY_DELAYS_MS ! attempt) (random attempt)]\<rparr>)))
              \<in> {None, Some NotRetryable, Some Exhausted}"
          using "1.IH" [OF "1.prems" Inl _ _ refl refl snippet] True lt by simp
        then show ?thesis
          using Inl True lt snippet by (subst attempts.simps) (simp add: Let_def)
      qed
    qed
  qed
qed

text \<open>
  The whole call, when the first \<open>K\<close> invocations reject with retryable errors and
  \<open>K\<close> does not exceed the length of the schedule: what the next invocation decides.
\<close>

lemma retries_then_success:
  assumes "K \<le> length RETRY_DELAYS_MS"
    and "\<forall>i<K. \<exists>err. query i = Inl err \<and> isRetryable err"
    and "query K = Inr result"
  shows "\<exists>ws. allOperations model operation query random =
           (Returned result,
            \<lparr>calls = K + 1, warnings = ws,
              sleeps = map (\<lambda>a. jitter (RETRY_DELAYS_MS ! a) (random a)) [0..<K]\<rparr>)
         \<and> map w_attempt ws = [1..<K + 1]"
proof -
  define fx0 where "fx0 = \<lparr>calls = 0, warnings = [], sleeps = []\<rparr>"
  have p1: "0 + K \<le> length RETRY_DELAYS_MS" using assms(1) by simp
  have p2: "\<forall>i<K. \<exists>err. query (calls fx0 + i) = Inl err \<and> isRetryable err"
    using assms(2) by (simp add: fx0_def)
  obtain last ws where run:
    "attempts model operation query random 0 (OtherValue Undefined) fx0 =
       attempts model operation query random (0 + K) last
         (fx0\<lparr>calls := calls fx0 + K, warnings := warnings fx0 @ ws,
              sleeps := sleeps fx0 @
                map (\<lambda>a. jitter (RETRY_DELAYS_MS ! a) (random a)) [0..<0 + K]\<rparr>)"
    "map w_attempt ws = [0 + 1..<0 + K + 1]"
    using attempts_retries [OF p1 p2] by blast
  define fxK where "fxK = \<lparr>calls = K, warnings = ws,
      sleeps = map (\<lambda>a. jitter (RETRY_DELAYS_MS ! a) (random a)) [0..<K]\<rparr>"
  have run': "attempts model operation query random 0 (OtherValue Undefined) fx0 =
       attempts model operation query random K last fxK"
    using run(1) by (simp add: fx0_def fxK_def)
  have "query (calls fxK) = Inr result" using assms(3) by (simp add: fxK_def)
  with assms(1) have "attempts model operation query random K last fxK =
      (Returned result, fxK\<lparr>calls := calls fxK + 1\<rparr>)"
    by (rule attempts_success)
  with run' have "allOperations model operation query random =
      (Returned result, \<lparr>calls = K + 1, warnings = ws,
              sleeps = map (\<lambda>a. jitter (RETRY_DELAYS_MS ! a) (random a)) [0..<K]\<rparr>)"
    by (simp add: allOperations_def fx0_def fxK_def)
  with run(2) show ?thesis by simp
qed

lemma retries_then_exhausted:
  assumes "\<forall>i<length RETRY_DELAYS_MS. \<exists>err. query i = Inl err \<and> isRetryable err"
    and "query (length RETRY_DELAYS_MS) = Inl err" and "isRetryable err"
  shows "\<exists>ws. allOperations model operation query random =
           (Thrown Exhausted err,
            \<lparr>calls = length RETRY_DELAYS_MS + 1, warnings = ws,
              sleeps = map (\<lambda>a. jitter (RETRY_DELAYS_MS ! a) (random a))
                         [0..<length RETRY_DELAYS_MS]\<rparr>)
         \<and> map w_attempt ws = [1..<length RETRY_DELAYS_MS + 1]"
proof -
  define K where "K = length RETRY_DELAYS_MS"
  define fx0 where "fx0 = \<lparr>calls = 0, warnings = [], sleeps = []\<rparr>"
  have p1: "0 + K \<le> length RETRY_DELAYS_MS" by (simp add: K_def)
  have p2: "\<forall>i<K. \<exists>err. query (calls fx0 + i) = Inl err \<and> isRetryable err"
    using assms(1) by (simp add: fx0_def K_def)
  obtain last ws where run:
    "attempts model operation query random 0 (OtherValue Undefined) fx0 =
       attempts model operation query random (0 + K) last
         (fx0\<lparr>calls := calls fx0 + K, warnings := warnings fx0 @ ws,
              sleeps := sleeps fx0 @
                map (\<lambda>a. jitter (RETRY_DELAYS_MS ! a) (random a)) [0..<0 + K]\<rparr>)"
    "map w_attempt ws = [0 + 1..<0 + K + 1]"
    using attempts_retries [OF p1 p2] by blast
  define fxK where "fxK = \<lparr>calls = K, warnings = ws,
      sleeps = map (\<lambda>a. jitter (RETRY_DELAYS_MS ! a) (random a)) [0..<K]\<rparr>"
  have run': "attempts model operation query random 0 (OtherValue Undefined) fx0 =
       attempts model operation query random (length RETRY_DELAYS_MS) last fxK"
    using run(1) by (simp add: fx0_def fxK_def K_def)
  have "query (calls fxK) = Inl err" using assms(2) by (simp add: fxK_def K_def)
  then have "attempts model operation query random (length RETRY_DELAYS_MS) last fxK =
      (Thrown Exhausted err, fxK\<lparr>calls := calls fxK + 1\<rparr>)"
    using assms(3) by (rule attempts_exhausted)
  with run' have "allOperations model operation query random =
      (Thrown Exhausted err, \<lparr>calls = K + 1, warnings = ws,
              sleeps = map (\<lambda>a. jitter (RETRY_DELAYS_MS ! a) (random a)) [0..<K]\<rparr>)"
    by (simp add: allOperations_def fx0_def fxK_def)
  with run(2) show ?thesis by (simp add: K_def)
qed

text \<open>
  C4. When the first invocation of the operation rejects with an error that is not
  retryable, the wrapper throws that same error value from the first \<^verbatim>\<open>throw err\<close>, after
  one invocation, with no timer awaited and no warning logged.
\<close>

theorem non_retryable_fails_fast:
  assumes "query 0 = Inl err" and "\<not> isRetryable err"
  shows "allOperations model operation query random =
           (Thrown NotRetryable err, \<lparr>calls = 1, warnings = [], sleeps = []\<rparr>)"
  using assms by (simp add: allOperations_def attempts_not_retryable)

theorem non_retryable_fails_fast_witness:
  "allOperations ''User'' ''create''
     (\<lambda>i. Inl (PrismaClientKnownRequestError ''P2002'' (Some ''Unique constraint failed'')) :: thrown + unit)
     (\<lambda>a. 1 / 2)
   = (Thrown NotRetryable (PrismaClientKnownRequestError ''P2002'' (Some ''Unique constraint failed'')),
      \<lparr>calls = 1, warnings = [], sleeps = []\<rparr>)"
  by (rule non_retryable_fails_fast) (simp_all add: RETRYABLE_CODES_def)

text \<open>
  C7. When the first invocation of the operation resolves, the wrapper returns that
  result after this one invocation, with no timer awaited and no warning logged: what
  a direct call of the operation gives.
\<close>

theorem first_success_returns:
  assumes "query 0 = Inr result"
  shows "allOperations model operation query random =
           (Returned result, \<lparr>calls = 1, warnings = [], sleeps = []\<rparr>)"
  using assms by (simp add: allOperations_def attempts_success)

theorem first_success_returns_witness:
  "allOperations ''User'' ''findMany'' (\<lambda>i. Inr (7 :: nat)) (\<lambda>a. 1 / 2)
   = (Returned 7, \<lparr>calls = 1, warnings = [], sleeps = []\<rparr>)"
  by (rule first_success_returns) simp

text \<open>
  C5. When every invocation of the operation rejects with a retryable error, the wrapper
  invokes it once more than the delay schedule is long, four times for the schedule
  [1000, 2000, 3000], and then throws, from the second \<^verbatim>\<open>throw err\<close>, the very error the
  last of these invocations rejected with. One timer is awaited and one warning logged
  for each of the three retries, none for the last failure.
\<close>

theorem always_failing_exhausts_schedule:
  assumes "\<forall>i. \<exists>err. query i = Inl err \<and> isRetryable err"
  shows "\<exists>err fx. query (length RETRY_DELAYS_MS) = Inl err
           \<and> allOperations model operation query random = (Thrown Exhausted err, fx)
           \<and> calls fx = length RETRY_DELAYS_MS + 1
           \<and> calls fx = 4
           \<and> length (sleeps fx) = length RETRY_DELAYS_MS
           \<and> length (warnings fx) = length RETRY_DELAYS_MS"
proof -
  obtain err where err: "query (length RETRY_DELAYS_MS) = Inl err" "isRetryable err"
    using assms by blast
  have before: "\<forall>i<length RETRY_DELAYS_MS. \<exists>err. query i = Inl err \<and> isRetryable err"
    using assms by blast
  obtain ws where ws:
    "allOperations model operation query random =
       (Thrown Exhausted err,
        \<lparr>calls = length RETRY_DELAYS_MS + 1, warnings = ws,
          sleeps = map (\<lambda>a. jitter (RETRY_DELAYS_MS ! a) (random a))
                     [0..<length RETRY_DELAYS_MS]\<rparr>)"
    "map w_attempt ws = [1..<length RETRY_DELAYS_MS + 1]"
    using retries_then_exhausted [OF before err] by blast
  have "length (map w_attempt ws) = length [1..<length RETRY_DELAYS_MS + 1]"
    by (simp only: ws(2))
  then have len: "length ws = length RETRY_DELAYS_MS"
    by (simp only: length_map length_upt add_diff_cancel_right')
  show ?thesis
    using err(1) ws(1) len by (simp add: RETRY_DELAYS_MS_def)
qed

theorem always_failing_exhausts_schedule_witness:
  "\<exists>fx. allOperations ''User'' ''findMany''
          (\<lambda>i. Inl (PrismaClientInitializationError None None) :: thrown + unit) (\<lambda>a. 1 / 2)
        = (Thrown Exhausted (PrismaClientInitializationError None None), fx)
      \<and> calls fx = 4"
  using always_failing_exhausts_schedule
    [of "\<lambda>i. Inl (PrismaClientInitializationError None None) :: thrown + unit"
        "''User''" "''findMany''" "\<lambda>a. 1 / 2"]
  by auto

text \<open>
  C6. When the operation rejects with a retryable error \<open>K\<close> times, \<open>K\<close> less than the
  length of the delay schedule, and then resolves, the wrapper returns that result
  after \<open>K + 1\<close> invocations, \<open>K\<close> awaited timers and \<open>K\<close> warnings. The timers are the
  jittered schedule entries 0 to \<open>K - 1\<close>, in order, and the warnings carry the attempt
  numbers 1 to \<open>K\<close>: one per retry, none for the success.
\<close>

theorem transient_failures_then_success:
  assumes "K < length RETRY_DELAYS_MS"
    and "\<forall>i<K. \<exists>err. query i = Inl err \<and> isRetryable err"
    and "query K = Inr result"
  shows "\<exists>fx. allOperations model operation query random = (Returned result, fx)
           \<and> calls fx = K + 1
           \<and> length (sleeps fx) = K
           \<and> length (warnings fx) = K
           \<and> sleeps fx = map (\<lambda>a. jitter (RETRY_DELAYS_MS ! a) (random a)) [0..<K]
           \<and> map w_attempt (warnings fx) = [1..<K + 1]"
proof -
  have le: "K \<le> length RETRY_DELAYS_MS" using assms(1) by simp
  obtain ws where ws:
    "allOperations model operation query random =
       (Returned result,
        \<lparr>calls = K + 1, warnings = ws,
          sleeps = map (\<lambda>a. jitter (RETRY_DELAYS_MS ! a) (random a)) [0..<K]\<rparr>)"
    "map w_attempt ws = [1..<K + 1]"
    using retries_then_success [OF le assms(2,3)] by blast
  have "length (map w_attempt ws) = length [1..<K + 1]" by (simp only: ws(2))
  then have "length ws = K" by (simp only: length_map length_upt add_diff_cancel_right')
  with ws show ?thesis by simp
qed

theorem transient_failures_then_success_witness:
  "\<exists>fx. allOperations ''User'' ''findMany''
          (\<lambda>i. if i < 2 then Inl (PrismaClientInitializationError None None) else Inr (7 :: nat))
          (\<lambda>a. 1 / 2)
        = (Returned 7, fx)
      \<and> calls fx = 3 \<and> length (sleeps fx) = 2 \<and> length (warnings fx) = 2"
  using transient_failures_then_success
    [of 2 "\<lambda>i. if i < 2 then Inl (PrismaClientInitializationError None None) else Inr (7 :: nat)"
        7 "''User''" "''findMany''" "\<lambda>a. 1 / 2"]
  by (auto simp add: RETRY_DELAYS_MS_def)

text \<open>
  C8. For every base delay \<open>d\<close> of the delay schedule and every value \<open>r\<close> the random
  source can return (a double with \<open>0 \<le> r < 1\<close>), \<open>jitter d r\<close> is at least \<open>d\<close> and less
  than \<open>d + 250\<close>.
\<close>

theorem jitter_within_bounds:
  assumes "d \<in> set RETRY_DELAYS_MS" and "is_double r" and "0 \<le> r" and "r < 1"
  shows "d \<le> jitter d r \<and> jitter d r < d + 250"
  using assms(2-4) by (rule jitter_range)

theorem jitter_within_bounds_witness:
  "1000 \<le> jitter 1000 (1 - 1 / 2 ^ 53) \<and> jitter 1000 (1 - 1 / 2 ^ 53) < 1000 + 250"
proof -
  have d: "(1000 :: nat) \<in> set RETRY_DELAYS_MS" by (simp add: RETRY_DELAYS_MS_def)
  have r: "is_double (1 - 1 / 2 ^ 53)" by code_simp
  show ?thesis by (rule jitter_within_bounds [OF d r]) simp_all
qed

text \<open>
  C9. The \<^verbatim>\<open>throw lastError\<close> after the loop is unreachable: whatever the operation does
  at each invocation, the wrapper completes by the \<^verbatim>\<open>return\<close> or by a \<^verbatim>\<open>throw\<close> inside the
  \<^verbatim>\<open>catch\<close> block, never by the statement after the loop.
\<close>

theorem throw_after_loop_unreachable:
  "site (fst (allOperations model operation query random)) \<noteq> Some AfterLoop"
proof -
  have "site (fst (allOperations model operation query random))
          \<in> {None, Some NotRetryable, Some Exhausted}"
    unfolding allOperations_def by (rule attempts_site) simp
  then show ?thesis by auto
qed

text \<open>Building the warning never throws: the \<^verbatim>\<open>TypeError\<close> of the slice cannot occur.\<close>

lemma warning_never_throws:
  "site (fst (allOperations model operation query random)) \<noteq> Some InWarning"
proof -
  have "site (fst (allOperations model operation query random))
          \<in> {None, Some NotRetryable, Some Exhausted}"
    unfolding allOperations_def by (rule attempts_site) simp
  then show ?thesis by auto
qed

text \<open>
  The cold start: three initialization failures, then a result. Three warnings, three
  jittered timers (the random source returning one half), four invocations.
\<close>

lemma cold_start_scenario:
  "allOperations ''User'' ''findMany''
     (\<lambda>i. if i < 3 then Inl (PrismaClientInitializationError None (Some ''Can't reach database server''))
          else Inr (7 :: nat))
     (\<lambda>a. 1 / 2)
   = (Returned 7,
      \<lparr>calls = 4,
        warnings =
          map (\<lambda>(n, d). \<lparr>w_model = ''User'', w_operation = ''findMany'',
                   w_errorId = ''PRISMA_CLIENT_INITIALIZATION_ERROR'', w_attempt = n, w_total = 4,
                   w_delayMs = d, w_message = ''Can't reach database server'' @ ellipsis\<rparr>)
            [(1, 1000), (2, 2000), (3, 3000)],
        sleeps = [1125, 2125, 3125]\<rparr>)"
  by code_simp

end
